theory Spec2Isabelle
  imports Complex_Main "HOL-Library.Sublist" "HOL-Library.Log_Nat"
begin

section \<open>Conventions\<close>

text \<open>
  The theory embeds the parts of the desktop activity tracker that its specification
  makes claims about: the activity classifier (\<^verbatim>\<open>MonitoredApp\<close>), the heartbeat
  throttle and dispatcher and the update coordinator (\<^verbatim>\<open>Wakatime\<close>), and the
  window construction of the polling observer (\<^verbatim>\<open>LinuxWindowManager\<close>).

  \<^item> A JavaScript string is a \<open>string\<close>; a \<open>char\<close> stands for one code unit below 256.
    The separators and patterns of the source are ASCII, so splitting and matching
    see the same segments.
  \<^item> \<^verbatim>\<open>null\<close> and \<^verbatim>\<open>undefined\<close> are \<open>None\<close>. A value is falsy when it is
    \<open>None\<close>, the empty string, \<open>0\<close> or \<open>False\<close>.
  \<^item> \<^verbatim>\<open>Date.now()\<close> is an \<open>int\<close> of milliseconds, passed in by the caller of each
    operation. A JavaScript number is a \<open>real\<close>. In the throttle and in
    \<^verbatim>\<open>sendHeartbeat\<close> the quotient \<^verbatim>\<open>Date.now() / 1000\<close> and the sum
    \<^verbatim>\<open>lastTime + 120\<close> are rounded to a double by \<open>double\<close>, as the operators
    \<^verbatim>\<open>/\<close> and \<^verbatim>\<open>+\<close> round them. In \<^verbatim>\<open>fetchToday\<close> the seconds are exact:
    rounding is not modelled there.
  \<^item> The fields of the \<^verbatim>\<open>Wakatime\<close> object are a record that every operation takes and
    returns; calls to the outside (the CLI, the update feed) are returned as values.
\<close>

section \<open>Data model\<close>

text \<open>
  Modelled from the spec: the type \<^verbatim>\<open>Category\<close>, declared in \<^verbatim>\<open>utils/types\<close>, which
  is not among the source files. Its values are the seven of the fixed enumeration, the
  same seven that \<^verbatim>\<open>MonitoredApp.category\<close> returns.
\<close>

datatype category =
  Browsing | Communicating | Coding | Debugging | Writing_docs | Designing | Meeting

text \<open>
  Modelled from the spec: the type \<^verbatim>\<open>EntityType\<close> of the same file, the three values
  of the CLI's \<^verbatim>\<open>--entity-type\<close> flag.
\<close>

datatype entity_type = App | File | Url

text \<open>\<^verbatim>\<open>DesktopWindowInfo\<close> and \<^verbatim>\<open>DesktopWindow\<close> (the icon getter is left out).\<close>

record desktop_window_info =
  processId :: "nat option"
  path :: "string option"
  name :: string
  execName :: "string option"

record desktop_window =
  window_id :: string
  title_of :: string
  url :: "string option"
  info :: desktop_window_info

text \<open>\<^verbatim>\<open>AppData\<close>, with the fields that \<^verbatim>\<open>buildAppData\<close> fills and the classifier reads.\<close>

record app_data =
  app_path :: string
  app_name :: string
  app_id :: string
  app_version :: "string option"
  isBrowser :: bool
  isDefaultEnabled :: bool
  isElectronApp :: bool

text \<open>The tray: title and tooltip (the status text), and which icon is shown.\<close>

datatype tray_icon = Icon_normal | Icon_red

record tray =
  tray_title :: string
  tray_tooltip :: string
  tray_image :: tray_icon

text \<open>The mutable fields of \<^verbatim>\<open>class Wakatime\<close>, under the names of the source.\<close>

record wakatime =
  lastEntitiy :: string
  lastTime :: real
  lastCodeTimeFetched :: real
  lastCodeTimeText :: string
  lastCategory :: category
  the_tray :: "tray option"
  versionString :: string
  lastCheckedForUpdates :: int
  lastPromptedToUpdateAt :: int
  lastPromptedToUpdateVersion :: string

text \<open>The field initialisers of the class; the constructor sets \<^verbatim>\<open>versionString\<close>.\<close>

definition initial_wakatime :: "string \<Rightarrow> wakatime" where
  "initial_wakatime version =
     \<lparr> lastEntitiy = [], lastTime = 0, lastCodeTimeFetched = 0, lastCodeTimeText = [],
       lastCategory = Coding, the_tray = None, versionString = version,
       lastCheckedForUpdates = 0, lastPromptedToUpdateAt = 0,
       lastPromptedToUpdateVersion = [] \<rparr>"

section \<open>JavaScript numbers\<close>

text \<open>
  A JavaScript number is an IEEE 754 binary64 value, and \<^verbatim>\<open>+\<close> and \<^verbatim>\<open>/\<close> return the
  exact result rounded to the nearest such value, ties to the even significand.
  \<open>exponent x\<close> is the \<open>e\<close> with \<open>2 powi e \<le> \<bar>x\<bar> < 2 powi (e + 1)\<close>, for
  \<open>\<bar>x\<bar>\<close> from \<open>2 powi (- 1074)\<close> on. \<open>quantum x\<close> is the distance between neighbouring
  doubles at \<open>x\<close>: 53 significant bits, and \<open>2 powi (- 1074)\<close> in the subnormal range.
  \<open>double x\<close> is the multiple of the quantum nearest to \<open>x\<close>. Overflow to
  \<^verbatim>\<open>Infinity\<close> (from \<open>2 powi 1024\<close> on), \<^verbatim>\<open>NaN\<close> and the sign of zero are not
  modelled.
\<close>

definition exponent :: "real \<Rightarrow> int" where
  "exponent x = bitlen \<lfloor>\<bar>x\<bar> * 2 powi 1074\<rfloor> - 1075"

definition quantum :: "real \<Rightarrow> real" where
  "quantum x = 2 powi (max (exponent x) (- 1022) - 52)"

definition round_half_even :: "real \<Rightarrow> int" where
  "round_half_even y =
     (let n = \<lfloor>y\<rfloor> in
      if y - of_int n < 1 / 2 then n
      else if 1 / 2 < y - of_int n then n + 1
      else if even n then n else n + 1)"

definition double :: "real \<Rightarrow> real" where
  "double x = quantum x * of_int (round_half_even (x / quantum x))"

section \<open>Heartbeat throttle\<close>

text \<open>
  \<^verbatim>\<open>shouldSendHeartbeat\<close> returns \<^verbatim>\<open>true\<close> from one of four \<^verbatim>\<open>if\<close>s and
  otherwise falls off its end, which yields \<^verbatim>\<open>undefined\<close>. Its only caller tests
  the result with \<^verbatim>\<open>!\<close>, so \<^verbatim>\<open>undefined\<close> is the suppressing answer. The
  sum \<^verbatim>\<open>this.lastTime + 120\<close> is a double addition.
\<close>

datatype js_true_or_undefined = JS_true | JS_undefined

fun truthy :: "js_true_or_undefined \<Rightarrow> bool" where
  "truthy JS_true = True"
| "truthy JS_undefined = False"

definition shouldSendHeartbeat ::
  "wakatime \<Rightarrow> string \<Rightarrow> real \<Rightarrow> bool \<Rightarrow> category \<Rightarrow> js_true_or_undefined" where
  "shouldSendHeartbeat this entity time isWrite category =
     (if isWrite then JS_true
      else if category \<noteq> lastCategory this then JS_true
      else if entity \<noteq> [] \<and> lastEntitiy this \<noteq> entity then JS_true
      else if double (lastTime this + 120) < time then JS_true
      else JS_undefined)"

section \<open>Activity classifier\<close>

subsection \<open>Category and language tables\<close>

definition category_of :: "app_data option \<Rightarrow> category option" where
  "category_of app =
     (case app of
        None \<Rightarrow> None
      | Some a \<Rightarrow>
          if app_id a \<in> set [''arcbrowser'', ''brave'', ''chrome'', ''firefox'', ''safari'',
                              ''safaripreview''] then Some Browsing
          else if app_id a \<in> set [''imessage'', ''microsoft_outlook'', ''slack'', ''wecom'']
            then Some Communicating
          else if app_id a \<in> set [''iterm2'', ''mac_terminal'', ''microsoft_excel'',
                                   ''windows_terminal'', ''powershell'', ''warp'', ''xcode'']
            then Some Coding
          else if app_id a \<in> set [''postman'', ''tableplus''] then Some Debugging
          else if app_id a \<in> set [''microsoft_word'', ''notes'', ''notion''] then Some Writing_docs
          else if app_id a \<in> set [''canva'', ''figma''] then Some Designing
          else if app_id a \<in> set [''whatsapp'', ''zoom''] then Some Meeting
          else None)"

definition language_of :: "app_data option \<Rightarrow> string option" where
  "language_of app =
     (case app of
        None \<Rightarrow> None
      | Some a \<Rightarrow>
          if app_id a \<in> set [''canva'', ''figma''] then Some ''Image (svg)''
          else if app_id a = ''postman'' then Some ''HTTP Request''
          else None)"

subsection \<open>Window titles\<close>

text \<open>
  \<^verbatim>\<open>s.split(sep)[0]\<close> for a non-empty separator: the text before the first
  occurrence of \<open>sep\<close>, or all of \<open>s\<close> when \<open>sep\<close> does not occur.
\<close>

fun split0 :: "string \<Rightarrow> string \<Rightarrow> string" where
  "split0 sep [] = []"
| "split0 sep (c # cs) = (if prefix sep (c # cs) then [] else c # split0 sep cs)"

text \<open>The first \<^verbatim>\<open>case\<close> group of \<^verbatim>\<open>MonitoredApp.title\<close>, in the order of the source.\<close>

definition title_blocked_ids :: "string list" where
  "title_blocked_ids =
     [''arcbrowser'', ''brave'', ''canva'', ''chrome'', ''firefox'', ''notes'', ''safari'',
      ''safaripreview'', ''xcode'', ''microsoft_edge'']"

text \<open>
  \<^verbatim>\<open>MonitoredApp.title\<close>. For a blocked id the source returns a template string built
  from the id; the three placeholder cases return \<^verbatim>\<open>null\<close> for an empty or
  placeholder first segment; the default is the first segment of a non-empty title,
  else the process name.
\<close>

definition title_default :: "desktop_window \<Rightarrow> string option" where
  "title_default windowInfo =
     (if title_of windowInfo \<noteq> [] then Some (split0 '' - '' (title_of windowInfo))
      else Some (name (info windowInfo)))"

definition title :: "desktop_window \<Rightarrow> app_data option \<Rightarrow> string option" where
  "title windowInfo app =
     (case map_option app_id app of
        None \<Rightarrow> title_default windowInfo
      | Some i \<Rightarrow>
          if i \<in> set title_blocked_ids
            then Some (i @ '' should never use window title as entity'')
          else if i = ''figma'' then
            (let t = split0 '' - '' (title_of windowInfo) in
             if t = [] \<or> t = ''Figma'' \<or> t = ''Drafts'' then None else Some t)
          else if i = ''warp'' then
            (let t = split0 '' - '' (title_of windowInfo) in
             if t = [] \<or> t = ''Wrap'' then None else Some t)
          else if i = ''postman'' then
            (let t = split0 '' - '' (title_of windowInfo) in
             if t = [] \<or> t = ''Postman'' then None else Some t)
          else title_default windowInfo)"

subsection \<open>Browser URLs\<close>

text \<open>
  The platform's \<^verbatim>\<open>new URL(url)\<close> is a parameter of the classifier: it either
  throws a \<^verbatim>\<open>TypeError\<close> (\<open>None\<close>) or yields an object of which the source reads
  \<^verbatim>\<open>host\<close> and \<^verbatim>\<open>port\<close>. In the URL standard \<^verbatim>\<open>port\<close> is empty for the
  scheme's default port, and \<^verbatim>\<open>host\<close> is \<^verbatim>\<open>hostname\<close> followed by \<^verbatim>\<open>:port\<close>
  when \<^verbatim>\<open>port\<close> is not empty.
\<close>

datatype js_error = TypeError

record parsed_url =
  hostname :: string
  port :: string

definition host :: "parsed_url \<Rightarrow> string" where
  "host u = hostname u @ (if port u = [] then [] else CHR '':'' # port u)"

text \<open>
  The external collaborators of the classifier: the site filter
  (\<^verbatim>\<open>FilterManager.filterBrowsedSites\<close>), the user's preference
  (\<^verbatim>\<open>PropertiesManager.domainPreference\<close>) and the URL parser.
\<close>

record classifier_env =
  filterBrowsedSites :: "string \<Rightarrow> bool"
  domainPreference :: string
  new_URL :: "string \<Rightarrow> parsed_url option"

text \<open>
  \<^verbatim>\<open>host.replace(/^www./, "")\<close>: the dot of the pattern is not escaped, so it stands
  for any character but a line terminator.
\<close>

definition line_terminator :: "char \<Rightarrow> bool" where
  "line_terminator c = (c = CHR 0x0A \<or> c = CHR 0x0D)"

fun replace_www :: "string \<Rightarrow> string" where
  "replace_www (a # b # c # d # rest) =
     (if a = CHR ''w'' \<and> b = CHR ''w'' \<and> c = CHR ''w'' \<and> \<not> line_terminator d then rest
      else a # b # c # d # rest)"
| "replace_www s = s"

definition domainFromUrl :: "classifier_env \<Rightarrow> string \<Rightarrow> js_error + string" where
  "domainFromUrl env u =
     (case new_URL env u of
        None \<Rightarrow> Inl TypeError
      | Some parsed \<Rightarrow>
          (let domain = replace_www (host parsed) in
           if port parsed \<noteq> [] then Inr (domain @ '':'' @ port parsed) else Inr domain))"

subsection \<open>Entity\<close>

definition entity ::
  "classifier_env \<Rightarrow> desktop_window \<Rightarrow> app_data option \<Rightarrow> js_error + string option" where
  "entity env windowInfo app =
     (if (case app of None \<Rightarrow> False | Some a \<Rightarrow> isBrowser a) then
        (case url windowInfo of
           None \<Rightarrow> Inr None
         | Some u \<Rightarrow>
             if u \<noteq> [] \<and> filterBrowsedSites env u then
               (if domainPreference env = ''domain''
                then (case domainFromUrl env u of Inl e \<Rightarrow> Inl e | Inr d \<Rightarrow> Inr (Some d))
                else Inr (Some u))
             else Inr None)
      else if map_option app_id app = Some ''canva'' then Inr None
      else if map_option app_id app = Some ''notes'' then Inr None
      else Inr (title windowInfo app))"

subsection \<open>Project from the URL\<close>

text \<open>
  The regular expressions of \<^verbatim>\<open>MonitoredApp.project\<close> use literals, a character
  class under \<^verbatim>\<open>+\<close>, \<^verbatim>\<open>*\<close> or \<^verbatim>\<open>?\<close>, an alternation of literals, capture
  groups and \<^verbatim>\<open>$\<close>. A pattern is the list of its items in order; \<open>rx_here\<close>
  matches a pattern at the start of a string as a backtracking matcher does: the
  quantifiers are greedy and give characters back when the rest fails, the
  alternatives are tried from the left. \<open>rx_search\<close> tries every start position from
  the left, as an unanchored pattern does.
\<close>

datatype cclass = Is char | Not char | Dot

fun cmatch :: "cclass \<Rightarrow> char \<Rightarrow> bool" where
  "cmatch (Is c) x = (x = c)"
| "cmatch (Not c) x = (x \<noteq> c)"
| "cmatch Dot x = (\<not> line_terminator x)"

datatype item =
  Lit string | Plus cclass | Star cclass | Opt cclass | Alt "string list"
  | GOpen nat | GClose nat | EndInput

text \<open>
  The state of a match: where each open group started (the input left at that point),
  and the text of each closed group.
\<close>

type_synonym captures = "(nat \<times> string) list \<times> (nat \<times> string) list"

function (sequential) rx_here :: "item list \<Rightarrow> string \<Rightarrow> captures \<Rightarrow> captures option" where
  "rx_here [] s st = Some st"
| "rx_here (Lit l # r) s st = (if prefix l s then rx_here r (drop (length l) s) st else None)"
| "rx_here (Plus c # r) [] st = None"
| "rx_here (Plus c # r) (x # xs) st = (if cmatch c x then rx_here (Star c # r) xs st else None)"
| "rx_here (Star c # r) [] st = rx_here r [] st"
| "rx_here (Star c # r) (x # xs) st =
     (if cmatch c x then
        (case rx_here (Star c # r) xs st of
           Some m \<Rightarrow> Some m
         | None \<Rightarrow> rx_here r (x # xs) st)
      else rx_here r (x # xs) st)"
| "rx_here (Opt c # r) [] st = rx_here r [] st"
| "rx_here (Opt c # r) (x # xs) st =
     (if cmatch c x then
        (case rx_here r xs st of Some m \<Rightarrow> Some m | None \<Rightarrow> rx_here r (x # xs) st)
      else rx_here r (x # xs) st)"
| "rx_here (Alt [] # r) s st = None"
| "rx_here (Alt (a # as) # r) s st =
     (case (if prefix a s then rx_here r (drop (length a) s) st else None) of
        Some m \<Rightarrow> Some m
      | None \<Rightarrow> rx_here (Alt as # r) s st)"
| "rx_here (GOpen n # r) s (opens, caps) = rx_here r s ((n, s) # opens, caps)"
| "rx_here (GClose n # r) s (opens, caps) =
     (case map_of opens n of
        None \<Rightarrow> rx_here r s (opens, caps)
      | Some s0 \<Rightarrow> rx_here r s (opens, (n, take (length s0 - length s) s0) # caps))"
| "rx_here (EndInput # r) s st = (if s = [] then rx_here r s st else None)"
  by pat_completeness auto

fun alternatives_left :: "item list \<Rightarrow> nat" where
  "alternatives_left (Alt as # r) = length as"
| "alternatives_left r = 0"

termination rx_here
  by (relation "measures [\<lambda>(p, s, st). length p, \<lambda>(p, s, st). alternatives_left p,
                          \<lambda>(p, s, st). length s]") auto

fun rx_search :: "item list \<Rightarrow> string \<Rightarrow> captures option" where
  "rx_search p [] = rx_here p [] ([], [])"
| "rx_search p (x # xs) =
     (case rx_here p (x # xs) ([], []) of
        Some m \<Rightarrow> Some m
      | None \<Rightarrow> rx_search p xs)"

text \<open>\<^verbatim>\<open>match[group]\<close>: the text of a group of a successful match.\<close>

definition capture :: "nat \<Rightarrow> captures \<Rightarrow> string option" where
  "capture g m = map_of (snd m) g"

text \<open>
  \<^verbatim>\<open>[^/]+\<close> and the tail \<^verbatim>\<open>\/?.*$\<close> that closes all six patterns, then the
  patterns, each with the number of the group that holds the repository.
\<close>

definition segment :: item where
  "segment = Plus (Not CHR ''/'')"

definition tail_items :: "item list" where
  "tail_items = [Opt (Is CHR ''/''), Star Dot, EndInput]"

definition owner_repo :: "string \<Rightarrow> item list" where
  "owner_repo hostname_slash =
     [Lit hostname_slash, segment, Lit ''/'', GOpen 1, segment, GClose 1] @ tail_items"

definition provider_repo :: "item list" where
  "provider_repo =
     [GOpen 1, Alt [''github'', ''bitbucket'', ''gitlab''], GClose 1, Lit ''/'', segment,
      Lit ''/'', GOpen 2, segment, GClose 2] @ tail_items"

record pattern =
  expression :: "item list"
  group_no :: nat

definition patterns :: "pattern list" where
  "patterns =
     [\<lparr>expression = owner_repo ''github.com/'', group_no = 1\<rparr>,
      \<lparr>expression = owner_repo ''gitlab.com/'', group_no = 1\<rparr>,
      \<lparr>expression = owner_repo ''bitbucket.org/'', group_no = 1\<rparr>,
      \<lparr>expression = [Lit ''app.circleci.com/'', Star Dot, Opt (Is CHR ''/'')] @ provider_repo,
       group_no = 2\<rparr>,
      \<lparr>expression = Lit ''app.travis-ci.com/'' # provider_repo, group_no = 2\<rparr>,
      \<lparr>expression = Lit ''app.travis-ci.org/'' # provider_repo, group_no = 2\<rparr>]"

text \<open>The \<^verbatim>\<open>for\<close> loop over the patterns: the first one that matches decides.\<close>

fun first_match :: "pattern list \<Rightarrow> string \<Rightarrow> string option" where
  "first_match [] u = None"
| "first_match (p # ps) u =
     (case rx_search (expression p) u of
        Some m \<Rightarrow> capture (group_no p) m
      | None \<Rightarrow> first_match ps u)"

definition project :: "desktop_window \<Rightarrow> string option" where
  "project windowInfo =
     (case url windowInfo of
        None \<Rightarrow> None
      | Some u \<Rightarrow> if u = [] then None else first_match patterns u)"

subsection \<open>The record handed to the dispatcher\<close>

record heartbeat_data =
  hb_entity :: string
  hb_category :: "category option"
  hb_language :: "string option"
  hb_project :: "string option"

definition heartbeatData ::
  "classifier_env \<Rightarrow> desktop_window \<Rightarrow> app_data option \<Rightarrow> js_error + heartbeat_data option" where
  "heartbeatData env windowInfo app =
     (case entity env windowInfo app of
        Inl e \<Rightarrow> Inl e
      | Inr None \<Rightarrow> Inr None
      | Inr (Some e) \<Rightarrow>
          if e = [] then Inr None
          else Inr (Some \<lparr> hb_entity = e, hb_category = category_of app,
                            hb_language = language_of app, hb_project = project windowInfo \<rparr>))"

section \<open>Heartbeat dispatcher\<close>

text \<open>Truthiness of an optional string and of an optional number.\<close>

definition truthy_string :: "string option \<Rightarrow> bool" where
  "truthy_string v = (case v of None \<Rightarrow> False | Some s \<Rightarrow> s \<noteq> [])"

definition truthy_number :: "nat option \<Rightarrow> bool" where
  "truthy_number v = (case v of None \<Rightarrow> False | Some n \<Rightarrow> n \<noteq> 0)"

text \<open>\<^verbatim>\<open>a || b\<close> on optional strings: \<open>a\<close> when it is truthy, else \<open>b\<close>.\<close>

definition or_else :: "string option \<Rightarrow> string option \<Rightarrow> string option" where
  "or_else a b = (if truthy_string a then a else b)"

text \<open>
  \<^verbatim>\<open>pluginString\<close>: the app's name and version without whitespace
  (\<^verbatim>\<open>replace(/\s/g, "")\<close>), then the version string of this program, with every code
  unit from \<^verbatim>\<open>\u0080\<close> on removed.
\<close>

definition js_whitespace :: "char \<Rightarrow> bool" where
  "js_whitespace c =
     (c \<in> set [CHR 0x09, CHR 0x0A, CHR 0x0B, CHR 0x0C, CHR 0x0D, CHR 0x20, CHR 0xA0])"

definition pluginString :: "wakatime \<Rightarrow> app_data option \<Rightarrow> desktop_window option \<Rightarrow> string" where
  "pluginString this appData windowInfo =
     (case or_else (map_option (\<lambda>w. name (info w)) windowInfo) (map_option app_name appData) of
        None \<Rightarrow> versionString this
      | Some appName \<Rightarrow>
          if appName = [] then versionString this
          else
            (let appNameSafe = filter (\<lambda>c. \<not> js_whitespace c) appName;
                 appVersion =
                   (case or_else
                           (map_option (filter (\<lambda>c. \<not> js_whitespace c))
                              (Option.bind appData app_version))
                           (Some ''unknown'') of
                      None \<Rightarrow> ''unknown''
                    | Some v \<Rightarrow> v)
             in filter (\<lambda>c. (of_char c :: nat) < 128)
                  (appNameSafe @ ''/'' @ appVersion @ '' '' @ versionString this)))"

fun category_string :: "category \<Rightarrow> string" where
  "category_string Browsing = ''browsing''"
| "category_string Communicating = ''communicating''"
| "category_string Coding = ''coding''"
| "category_string Debugging = ''debugging''"
| "category_string Writing_docs = ''writing docs''"
| "category_string Designing = ''designing''"
| "category_string Meeting = ''meeting''"

fun entity_type_string :: "entity_type \<Rightarrow> string" where
  "entity_type_string App = ''app''"
| "entity_type_string File = ''file''"
| "entity_type_string Url = ''url''"

text \<open>The argument of \<^verbatim>\<open>sendHeartbeat\<close>.\<close>

record heartbeat_props =
  props_appData :: "app_data option"
  props_windowInfo :: desktop_window
  props_entity :: string
  props_entityType :: entity_type
  props_category :: "category option"
  props_project :: "string option"
  props_language :: "string option"
  props_isWrite :: bool

text \<open>
  \<^verbatim>\<open>sendHeartbeat\<close> up to the point where it starts the CLI. The outcome names the
  statement at which the call leaves this part: one of the three early \<^verbatim>\<open>return\<close>s,
  in the order of the source, or the call of \<^verbatim>\<open>exec\<close> with its arguments.
  \<open>isMonitored\<close> is \<^verbatim>\<open>MonitoringManager.isMonitored\<close> and \<open>now\<close> the reading of
  \<^verbatim>\<open>Date.now()\<close>; \<open>time\<close> is the double quotient. All of this runs before the first \<^verbatim>\<open>await\<close>, so it is one
  uninterrupted step. What follows the CLI's answer (the tray icon, the balloon, the
  notification) is not modelled; \<^verbatim>\<open>fetchToday\<close> and \<^verbatim>\<open>checkForUpdates\<close>, which
  are called last, are modelled below.
\<close>

datatype send_outcome =
  Return_throttled | Return_not_monitored | Return_no_app_name | Exec_heartbeat "string list"

definition heartbeat_args :: "wakatime \<Rightarrow> heartbeat_props \<Rightarrow> category \<Rightarrow> string list" where
  "heartbeat_args this props category =
     [''--entity'', props_entity props,
      ''--entity-type'', entity_type_string (props_entityType props),
      ''--category'', category_string category,
      ''--plugin'', pluginString this (props_appData props) (Some (props_windowInfo props))]
     @ (if truthy_string (props_project props) then [''--project'', the (props_project props)] else [])
     @ (if props_isWrite props then [''--write''] else [])
     @ (if truthy_string (props_language props) then [''--language'', the (props_language props)] else [])"

definition sendHeartbeat ::
  "(string \<Rightarrow> bool) \<Rightarrow> int \<Rightarrow> wakatime \<Rightarrow> heartbeat_props \<Rightarrow> send_outcome \<times> wakatime" where
  "sendHeartbeat isMonitored now this props =
     (let category = (case props_category props of None \<Rightarrow> Coding | Some c \<Rightarrow> c);
          time = double (real_of_int now / 1000);
          windowPath = path (info (props_windowInfo props));
          appName = or_else (Some (name (info (props_windowInfo props))))
                      (map_option app_name (props_appData props))
      in
        if \<not> truthy (shouldSendHeartbeat this (props_entity props) time (props_isWrite props)
                        category)
          then (Return_throttled, this)
        else if \<not> truthy_string windowPath \<or> \<not> isMonitored (the windowPath)
          then (Return_not_monitored, this)
        else if \<not> truthy_string appName
          then (Return_no_app_name, this)
        else
          (let this' = this\<lparr> lastEntitiy := props_entity props, lastCategory := category,
                               lastTime := time \<rparr>
           in (Exec_heartbeat (heartbeat_args this' props category), this')))"

subsection \<open>The summary of today\<close>

text \<open>
  What \<^verbatim>\<open>exec\<close> answers: the output, an error, or an exception of the spawn itself.
\<close>

datatype exec_result = Output string | Error string | Thrown

definition set_status :: "string \<Rightarrow> string \<Rightarrow> wakatime \<Rightarrow> wakatime" where
  "set_status new_title new_tooltip this =
     this\<lparr> the_tray :=
       map_option (\<lambda>t. t\<lparr> tray_title := new_title, tray_tooltip := new_tooltip \<rparr>) (the_tray this) \<rparr>"


fun fetchToday_resume :: "exec_result \<Rightarrow> wakatime \<Rightarrow> wakatime" where
  "fetchToday_resume (Output out) this =
     set_status ('' '' @ out) ('' '' @ out) (this\<lparr> lastCodeTimeText := out \<rparr>)"
| "fetchToday_resume (Error err) this = this"
| "fetchToday_resume Thrown this = this"




section \<open>Update coordinator\<close>

text \<open>The calls to the update feed client (\<^verbatim>\<open>autoUpdater\<close>).\<close>

datatype updater_call = CheckForUpdatesAndNotify | DownloadUpdate | QuitAndInstall

definition canPromptToUpdate :: "wakatime \<Rightarrow> int \<Rightarrow> string \<Rightarrow> bool" where
  "canPromptToUpdate this now newVersion =
     (if lastPromptedToUpdateAt this + 604800 * 1000 < now then True
      else if lastPromptedToUpdateVersion this \<noteq> newVersion then True
      else False)"

text \<open>The handlers of \<^verbatim>\<open>update-available\<close> and \<^verbatim>\<open>update-downloaded\<close>.\<close>

definition on_update_available :: "int \<Rightarrow> string \<Rightarrow> wakatime \<Rightarrow> updater_call list \<times> wakatime" where
  "on_update_available now version this =
     (if \<not> canPromptToUpdate this now version then ([], this)
      else ([DownloadUpdate], this))"

text \<open>
  The handler reads the clock twice: \<open>now\<close> in \<^verbatim>\<open>canPromptToUpdate\<close>, \<open>now'\<close>
  for the time it stores.
\<close>

definition on_update_downloaded ::
  "int \<Rightarrow> int \<Rightarrow> string \<Rightarrow> wakatime \<Rightarrow> updater_call list \<times> wakatime" where
  "on_update_downloaded now now' version this =
     (if \<not> canPromptToUpdate this now version then ([], this)
      else ([QuitAndInstall],
            this\<lparr> lastPromptedToUpdateVersion := version, lastPromptedToUpdateAt := now' \<rparr>))"

text \<open>
  \<^verbatim>\<open>checkForUpdates\<close>, with the setting \<^verbatim>\<open>PropertiesManager.autoUpdateEnabled\<close> and
  the flag \<^verbatim>\<open>isDev\<close>. No statement of the class assigns \<^verbatim>\<open>lastCheckedForUpdates\<close>.
\<close>

definition checkForUpdates ::
  "bool \<Rightarrow> bool \<Rightarrow> int \<Rightarrow> wakatime \<Rightarrow> updater_call list \<times> wakatime" where
  "checkForUpdates autoUpdateEnabled isDev now this =
     (if \<not> autoUpdateEnabled \<or> isDev then ([], this)
      else if lastCheckedForUpdates this + 600 * 1000 > now then ([], this)
      else ([CheckForUpdatesAndNotify], this))"

section \<open>Polling observer: building a window\<close>

text \<open>
  What \<^verbatim>\<open>buildWindowFromId\<close> extracts from the output of \<^verbatim>\<open>xprop\<close>: the results
  of \<^verbatim>\<open>extractNumber\<close>, \<^verbatim>\<open>extractString\<close> and \<^verbatim>\<open>extractList\<close>.
\<close>

record xprop_fields =
  net_wm_pid :: "nat option"
  net_wm_name :: "string option"
  wm_class :: "string list option"
  gtk_application_id :: "string option"

text \<open>
  The surroundings: \<^verbatim>\<open>resolveProcessPath\<close> (the link \<^verbatim>\<open>/proc/pid/exe\<close>, or
  \<^verbatim>\<open>null\<close>), and the platform's \<^verbatim>\<open>path.parse(p).name\<close> on a string.
  \<^verbatim>\<open>path.parse\<close> throws a \<^verbatim>\<open>TypeError\<close> when its argument is not a string.
\<close>

record linux_env =
  resolveProcessPath :: "nat \<Rightarrow> string option"
  path_name :: "string \<Rightarrow> string"

definition path_parse_name :: "linux_env \<Rightarrow> string option \<Rightarrow> js_error + string" where
  "path_parse_name env p = (case p of None \<Rightarrow> Inl TypeError | Some s \<Rightarrow> Inr (path_name env s))"

text \<open>\<^verbatim>\<open>wmClassRaw?.[0]\<close> and \<^verbatim>\<open>wmClassRaw?.[wmClassRaw.length - 1]\<close>.\<close>

definition first_class :: "string list option \<Rightarrow> string option" where
  "first_class c = (case c of None \<Rightarrow> None | Some [] \<Rightarrow> None | Some (x # xs) \<Rightarrow> Some x)"

definition last_class :: "string list option \<Rightarrow> string option" where
  "last_class c = (case c of None \<Rightarrow> None | Some [] \<Rightarrow> None | Some (x # xs) \<Rightarrow> Some (last (x # xs)))"

text \<open>\<^verbatim>\<open>a ?? b\<close>: \<open>a\<close> unless it is \<^verbatim>\<open>null\<close> or \<^verbatim>\<open>undefined\<close>.\<close>

definition nullish :: "'a option \<Rightarrow> 'a option \<Rightarrow> 'a option" where
  "nullish a b = (case a of None \<Rightarrow> b | Some x \<Rightarrow> Some x)"

text \<open>
  The body of the \<^verbatim>\<open>try\<close>, after \<^verbatim>\<open>xprop\<close> has answered. In
  \<^verbatim>\<open>a ?? b ?? c ? x : y\<close> the conditional binds weakest: the whole chain
  \<^verbatim>\<open>a ?? b ?? c\<close> is its condition.
\<close>

definition build_window ::
  "linux_env \<Rightarrow> string \<Rightarrow> xprop_fields \<Rightarrow> nat option \<Rightarrow> string option
     \<Rightarrow> js_error + desktop_window" where
  "build_window env windowId out pidFromWmctrl fallbackTitle =
     (let pid = nullish (net_wm_pid out) pidFromWmctrl;
          title_text = (case or_else (or_else (net_wm_name out) fallbackTitle) (Some []) of
                          None \<Rightarrow> [] | Some t \<Rightarrow> t);
          wmClassRaw = wm_class out;
          gtkAppId = gtk_application_id out;
          processPath = (if truthy_number pid then resolveProcessPath env (the pid) else None);
          execName = (if truthy_string processPath
                      then (case path_parse_name env processPath of
                              Inl e \<Rightarrow> Inl e | Inr n \<Rightarrow> Inr (Some n))
                      else Inr (nullish (first_class wmClassRaw) None));
          appName = (if truthy_string (nullish (nullish (last_class wmClassRaw) gtkAppId) processPath)
                     then path_parse_name env processPath
                     else Inr title_text)
      in case execName of
           Inl e \<Rightarrow> Inl e
         | Inr execName' \<Rightarrow>
             (case appName of
                Inl e \<Rightarrow> Inl e
              | Inr appName' \<Rightarrow>
                  Inr \<lparr> window_id = windowId, title_of = title_text, url = None,
                        info = \<lparr> processId = pid, path = processPath, name = appName',
                                 execName = execName' \<rparr> \<rparr>))"

text \<open>
  The \<^verbatim>\<open>catch\<close> block, and the whole function: \<open>xprop_out\<close> is \<open>None\<close> when the
  call of \<^verbatim>\<open>xprop\<close> itself fails.
\<close>

definition build_window_catch ::
  "linux_env \<Rightarrow> string \<Rightarrow> nat option \<Rightarrow> string option \<Rightarrow> desktop_window option" where
  "build_window_catch env windowId pidFromWmctrl fallbackTitle =
     (if truthy_number pidFromWmctrl then
        (let processPath = resolveProcessPath env (the pidFromWmctrl) in
         if \<not> truthy_string processPath then None
         else
           (let execName' = path_name env (the processPath) in
            Some \<lparr> window_id = windowId,
                   title_of = (case fallbackTitle of None \<Rightarrow> execName' | Some t \<Rightarrow> t),
                   url = None,
                   info = \<lparr> processId = pidFromWmctrl, path = processPath, name = execName',
                            execName = Some execName' \<rparr> \<rparr>))
      else None)"

definition buildWindowFromId ::
  "linux_env \<Rightarrow> string \<Rightarrow> xprop_fields option \<Rightarrow> nat option \<Rightarrow> string option
     \<Rightarrow> desktop_window option" where
  "buildWindowFromId env windowId xprop_out pidFromWmctrl fallbackTitle =
     (case xprop_out of
        None \<Rightarrow> build_window_catch env windowId pidFromWmctrl fallbackTitle
      | Some out \<Rightarrow>
          (case build_window env windowId out pidFromWmctrl fallbackTitle of
             Inr w \<Rightarrow> Some w
           | Inl e \<Rightarrow> build_window_catch env windowId pidFromWmctrl fallbackTitle))"

section \<open>Example inputs\<close>

text \<open>
  Concrete windows, apps and surroundings for the examples below. \<open>example_new_URL\<close>
  gives, for three URLs, the parts that the URL standard's parser yields for them, and
  throws for every other string.
\<close>

definition example_window :: "string \<Rightarrow> string option \<Rightarrow> desktop_window" where
  "example_window t u =
     \<lparr> window_id = ''0x3a00007'', title_of = t, url = u,
       info = \<lparr> processId = Some 4242, path = Some ''/usr/bin/app'', name = ''app'',
                execName = Some ''app'' \<rparr> \<rparr>"

definition example_app :: "string \<Rightarrow> bool \<Rightarrow> app_data" where
  "example_app i b =
     \<lparr> app_path = ''/usr/bin/app'', app_name = ''App'', app_id = i, app_version = None,
       isBrowser = b, isDefaultEnabled = False, isElectronApp = False \<rparr>"

definition example_new_URL :: "string \<Rightarrow> parsed_url option" where
  "example_new_URL u =
     (if u = ''https://github.com/acme/widgets/pull/9''
        then Some \<lparr> hostname = ''github.com'', port = [] \<rparr>
      else if u = ''http://localhost:3000/dashboard''
        then Some \<lparr> hostname = ''localhost'', port = ''3000'' \<rparr>
      else if u = ''https://www2.example.com/''
        then Some \<lparr> hostname = ''www2.example.com'', port = [] \<rparr>
      else None)"

definition example_env :: classifier_env where
  "example_env =
     \<lparr> filterBrowsedSites = (\<lambda>u. True), domainPreference = ''domain'',
       new_URL = example_new_URL \<rparr>"


definition example_props :: "string option \<Rightarrow> bool \<Rightarrow> heartbeat_props" where
  "example_props window_path is_write =
     \<lparr> props_appData = None,
       props_windowInfo =
         \<lparr> window_id = ''0x3a00007'', title_of = ''main.ts - Code'', url = None,
           info = \<lparr> processId = Some 4242, path = window_path, name = ''Code'',
                    execName = Some ''code'' \<rparr> \<rparr>,
       props_entity = ''main.ts'', props_entityType = App, props_category = Some Coding,
       props_project = None, props_language = None, props_isWrite = is_write \<rparr>"

definition example_state :: wakatime where
  "example_state =
     (initial_wakatime ''linux-wakatime/1.0'')\<lparr> lastEntitiy := ''main.ts'', lastTime := 1700000000 \<rparr>"

section \<open>Theorems\<close>

subsection \<open>Rounding to a double\<close>

lemma two_powi_nat: "0 \<le> k \<Longrightarrow> (2::real) powi k = 2 ^ nat k"
  by (simp add: power_int_def)

lemma floor_bitlen_upper:
  fixes z :: real
  assumes "0 \<le> z"
  shows "z < 2 powi (bitlen \<lfloor>z\<rfloor>)"
proof -
  have nonneg: "0 \<le> \<lfloor>z\<rfloor>" using assms by simp
  have "\<lfloor>z\<rfloor> < 2 ^ nat (bitlen \<lfloor>z\<rfloor>)"
  proof (cases "\<lfloor>z\<rfloor> = 0")
    case True
    then show ?thesis by (simp only: bitlen_zero) simp
  next
    case False
    with nonneg have "0 < \<lfloor>z\<rfloor>" by linarith
    from bitlen_bounds [OF this] show ?thesis by blast
  qed
  then have "z < of_int (2 ^ nat (bitlen \<lfloor>z\<rfloor>))"
    by (rule floor_less_iff [THEN iffD1])
  then show ?thesis by (simp add: two_powi_nat bitlen_nonneg)
qed

lemma floor_bitlen_lower:
  fixes z :: real
  assumes "1 \<le> z"
  shows "2 powi (bitlen \<lfloor>z\<rfloor> - 1) \<le> z"
proof -
  have pos: "0 < \<lfloor>z\<rfloor>" using assms by linarith
  then have "2 ^ nat (bitlen \<lfloor>z\<rfloor> - 1) \<le> \<lfloor>z\<rfloor>" using bitlen_bounds by blast
  then have "of_int (2 ^ nat (bitlen \<lfloor>z\<rfloor> - 1)) \<le> z"
    by (rule le_floor_iff [THEN iffD1])
  moreover have "1 \<le> bitlen \<lfloor>z\<rfloor>"
    using pos bitlen_nonneg [of "\<lfloor>z\<rfloor>"] bitlen_eq_zero_iff [of "\<lfloor>z\<rfloor>"] by linarith
  ultimately show ?thesis by (simp add: two_powi_nat)
qed

lemma scale_pos: "0 < (2::real) powi 1074"
  by (rule zero_less_power_int) simp

lemma scaled: "(2::real) powi e * 2 powi 1074 = 2 powi (e + 1074)"
  by (rule power_int_add [symmetric]) simp

lemma exponent_upper: "\<bar>x\<bar> < 2 powi (exponent x + 1)"
proof -
  have "\<bar>x\<bar> * 2 powi 1074 < 2 powi (bitlen \<lfloor>\<bar>x\<bar> * 2 powi 1074\<rfloor>)"
    using scale_pos by (intro floor_bitlen_upper) (simp del: power_int_numeral)
  also have "\<dots> = 2 powi (exponent x + 1) * 2 powi 1074"
    unfolding scaled exponent_def by (simp del: power_int_numeral)
  finally show ?thesis using scale_pos by (simp only: mult_less_cancel_right_pos)
qed

lemma exponent_lower:
  assumes "- 1075 < exponent x"
  shows "2 powi (exponent x) \<le> \<bar>x\<bar>"
proof -
  have "0 \<le> \<bar>x\<bar> * 2 powi 1074"
    using scale_pos by (intro mult_nonneg_nonneg) (simp_all only: abs_ge_zero less_imp_le)
  then have "0 \<le> \<lfloor>\<bar>x\<bar> * 2 powi 1074\<rfloor>"
    by (simp only: zero_le_floor)
  moreover have "bitlen \<lfloor>\<bar>x\<bar> * 2 powi 1074\<rfloor> \<noteq> 0"
    using assms unfolding exponent_def by linarith
  ultimately have "0 < \<lfloor>\<bar>x\<bar> * 2 powi 1074\<rfloor>"
    using bitlen_eq_zero_iff [of "\<lfloor>\<bar>x\<bar> * 2 powi 1074\<rfloor>"] by linarith
  then have "1 \<le> \<bar>x\<bar> * 2 powi 1074" by linarith
  then have "2 powi (bitlen \<lfloor>\<bar>x\<bar> * 2 powi 1074\<rfloor> - 1) \<le> \<bar>x\<bar> * 2 powi 1074"
    by (rule floor_bitlen_lower)
  moreover have "2 powi (bitlen \<lfloor>\<bar>x\<bar> * 2 powi 1074\<rfloor> - 1) = 2 powi (exponent x) * (2::real) powi 1074"
    unfolding scaled exponent_def by (simp del: power_int_numeral)
  ultimately have "2 powi (exponent x) * (2::real) powi 1074 \<le> \<bar>x\<bar> * 2 powi 1074"
    by (simp only:)
  then show ?thesis using scale_pos by (simp only: mult_le_cancel_right_pos)
qed

lemma bitlen_mono: "a \<le> b \<Longrightarrow> bitlen a \<le> bitlen b"
  by (simp add: bitlen_def floorlog_mono)

lemma exponent_mono: "\<bar>x\<bar> \<le> \<bar>y\<bar> \<Longrightarrow> exponent x \<le> exponent y"
  unfolding exponent_def
  using scale_pos by (intro diff_right_mono bitlen_mono floor_mono mult_right_mono) (simp_all only: less_imp_le)

lemma two_powi_less_imp: "(2::real) powi a < 2 powi b \<Longrightarrow> a < b"
  by (rule ccontr) (use power_int_increasing [of b a "2::real"] in simp)

lemma exponent_eqI:
  assumes "2 powi e \<le> \<bar>x\<bar>" "\<bar>x\<bar> < 2 powi (e + 1)" "- 1074 \<le> e"
  shows "exponent x = e"
proof (rule antisym)
  have "(2::real) powi e < 2 powi (exponent x + 1)"
    using assms(1) exponent_upper [of x] by simp
  then have "e < exponent x + 1" by (rule two_powi_less_imp)
  then show ge: "e \<le> exponent x" by simp
  with assms(3) have "- 1075 < exponent x" by simp
  then have "2 powi (exponent x) \<le> \<bar>x\<bar>" by (rule exponent_lower)
  with assms(2) have "(2::real) powi (exponent x) < 2 powi (e + 1)" by simp
  then have "exponent x < e + 1" by (rule two_powi_less_imp)
  then show "exponent x \<le> e" by simp
qed

lemma round_half_even_near: "\<bar>y - of_int (round_half_even y)\<bar> \<le> 1 / 2"
  unfolding round_half_even_def Let_def by (auto simp: abs_if) linarith+

lemma round_half_even_of_int [simp]: "round_half_even (of_int n) = n"
  by (simp add: round_half_even_def)

lemma round_half_even_mono: "a \<le> b \<Longrightarrow> round_half_even a \<le> round_half_even b"
proof (rule ccontr)
  assume le: "a \<le> b" and "\<not> round_half_even a \<le> round_half_even b"
  then have gt: "round_half_even b + 1 \<le> round_half_even a" by simp
  then have "real_of_int (round_half_even b) + 1 \<le> real_of_int (round_half_even a)"
    by linarith
  with round_half_even_near [of a] round_half_even_near [of b] le
  have "a = b" by linarith
  with gt show False by simp
qed

lemma quantum_pos: "0 < quantum x"
  unfolding quantum_def by (rule zero_less_power_int) simp

lemma double_le_grid:
  assumes "x \<le> quantum x * of_int k"
  shows "double x \<le> quantum x * of_int k"
proof -
  have "x / quantum x \<le> of_int k"
    using assms quantum_pos [of x] by (simp add: pos_divide_le_eq mult.commute)
  then have "round_half_even (x / quantum x) \<le> k"
    using round_half_even_mono [of "x / quantum x" "of_int k"] by simp
  then show ?thesis
    unfolding double_def using quantum_pos [of x] by simp
qed

lemma double_ge_grid:
  assumes "quantum x * of_int k \<le> x"
  shows "quantum x * of_int k \<le> double x"
proof -
  have "of_int k \<le> x / quantum x"
    using assms quantum_pos [of x] by (simp add: pos_le_divide_eq mult.commute)
  then have "k \<le> round_half_even (x / quantum x)"
    using round_half_even_mono [of "of_int k" "x / quantum x"] by simp
  then show ?thesis
    unfolding double_def using quantum_pos [of x] by simp
qed

lemma power_on_grid:
  assumes "max (exponent x) (- 1022) \<le> e"
  shows "2 powi e = quantum x * of_int (2 ^ nat (e - max (exponent x) (- 1022) + 52))"
proof -
  let ?m = "max (exponent x) (- 1022)"
  have "(2::real) powi e = 2 powi (?m - 52) * 2 powi (e - ?m + 52)"
    using power_int_add [of "2::real" "?m - 52" "e - ?m + 52"] by simp
  also have "(2::real) powi (e - ?m + 52) = 2 ^ nat (e - ?m + 52)"
    using assms by (intro two_powi_nat) simp
  finally show ?thesis by (simp add: quantum_def)
qed

lemma double_mono:
  assumes "x \<le> y"
  shows "double x \<le> double y"
proof (cases "quantum x = quantum y")
  case True
  have "x / quantum y \<le> y / quantum y"
    using assms quantum_pos [of y] by (simp add: divide_right_mono)
  then have "round_half_even (x / quantum y) \<le> round_half_even (y / quantum y)"
    by (rule round_half_even_mono)
  then show ?thesis
    unfolding double_def True using quantum_pos [of y] by simp
next
  case False
  let ?mx = "max (exponent x) (- 1022)" and ?my = "max (exponent y) (- 1022)"
  from False have differ: "?mx \<noteq> ?my" by (auto simp: quantum_def)
  consider "x \<le> 0 \<and> 0 \<le> y" | "0 < x" | "y < 0" using assms by linarith
  then show ?thesis
  proof cases
    case 1
    have "double x \<le> quantum x * of_int 0" using 1 by (intro double_le_grid) simp
    moreover have "quantum y * of_int 0 \<le> double y" using 1 by (intro double_ge_grid) simp
    ultimately show ?thesis by simp
  next
    case 2
    with assms have "\<bar>x\<bar> \<le> \<bar>y\<bar>" by simp
    then have "exponent x \<le> exponent y" by (rule exponent_mono)
    with differ have greater: "?mx < exponent y" "- 1022 < exponent y" by auto
    let ?g = "(2::real) powi (exponent y)"
    have "\<bar>x\<bar> < 2 powi (exponent x + 1)" by (rule exponent_upper)
    also have "\<dots> \<le> ?g" using greater by (intro power_int_increasing) auto
    finally have "x \<le> ?g" by simp
    moreover have "?g \<le> \<bar>y\<bar>" using greater by (intro exponent_lower) simp
    then have "?g \<le> y" using 2 assms by simp
    moreover have "?g = quantum x * of_int (2 ^ nat (exponent y - ?mx + 52))"
      using greater by (intro power_on_grid) simp
    moreover have "?g = quantum y * of_int (2 ^ nat (exponent y - ?my + 52))"
      using greater by (intro power_on_grid) simp
    ultimately show ?thesis
      using double_le_grid [of x "2 ^ nat (exponent y - ?mx + 52)"]
        double_ge_grid [of y "2 ^ nat (exponent y - ?my + 52)"] by simp
  next
    case 3
    with assms have "\<bar>y\<bar> \<le> \<bar>x\<bar>" by simp
    then have "exponent y \<le> exponent x" by (rule exponent_mono)
    with differ have greater: "?my < exponent x" "- 1022 < exponent x" by auto
    let ?g = "(2::real) powi (exponent x)"
    have "\<bar>y\<bar> < 2 powi (exponent y + 1)" by (rule exponent_upper)
    also have "\<dots> \<le> ?g" using greater by (intro power_int_increasing) auto
    finally have "- ?g \<le> y" using 3 by simp
    moreover have "?g \<le> \<bar>x\<bar>" using greater by (intro exponent_lower) simp
    then have "x \<le> - ?g" using 3 assms by simp
    moreover have "?g = quantum x * of_int (2 ^ nat (exponent x - ?mx + 52))"
      using greater by (intro power_on_grid) simp
    then have "- ?g = quantum x * of_int (- (2 ^ nat (exponent x - ?mx + 52)))" by simp
    moreover have "?g = quantum y * of_int (2 ^ nat (exponent x - ?my + 52))"
      using greater by (intro power_on_grid) simp
    then have "- ?g = quantum y * of_int (- (2 ^ nat (exponent x - ?my + 52)))" by simp
    ultimately show ?thesis
      using double_le_grid [of x "- (2 ^ nat (exponent x - ?mx + 52))"]
        double_ge_grid [of y "- (2 ^ nat (exponent x - ?my + 52))"] by simp
  qed
qed

lemma double_in_binade:
  assumes "2 powi e \<le> \<bar>x\<bar>" "\<bar>x\<bar> < 2 powi (e + 1)" "- 1022 \<le> e"
  shows "double x = 2 powi (e - 52) * of_int (round_half_even (x / 2 powi (e - 52)))"
proof -
  have "exponent x = e" using assms by (intro exponent_eqI) simp_all
  with assms(3) have "quantum x = 2 powi (e - 52)" by (simp add: quantum_def max_def)
  then show ?thesis by (simp add: double_def)
qed

text \<open>The doubles of the examples.\<close>

lemma double_1700000010: "double 1700000010 = 1700000010"
  by (subst double_in_binade [of 30]) (simp_all add: round_half_even_def)

lemma double_1700000120: "double 1700000120 = 1700000120"
  by (subst double_in_binade [of 30]) (simp_all add: round_half_even_def)

lemma double_2038_stored: "double (214748352801 / 100) = 9007198751466455 / 4194304"
  by (subst double_in_binade [of 30]) (simp_all add: round_half_even_def)

lemma double_2038_time: "double (214748364801 / 100) = 1125899906847867 / 524288"
  by (subst double_in_binade [of 31]) (simp_all add: round_half_even_def)

lemma double_2038_sum: "double (9007199254782935 / 4194304) = 1125899906847867 / 524288"
  by (subst double_in_binade [of 31]) (simp_all add: round_half_even_def)

lemma double_2038_time_fixed: "double (1125899906847867 / 524288) = 1125899906847867 / 524288"
  by (subst double_in_binade [of 31]) (simp_all add: round_half_even_def)

lemmas double_example_values =
  double_1700000010 double_1700000120 double_2038_stored double_2038_time double_2038_sum
  double_2038_time_fixed

subsection \<open>The throttle\<close>

text \<open>
  C1, as stated, fails where the sum \<^verbatim>\<open>lastTime + 120\<close> is not a double. A heartbeat
  at \<^verbatim>\<open>Date.now() = 2147483528010\<close> stores \<open>9007198751466455 / 4194304\<close>; at
  \<^verbatim>\<open>Date.now() = 2147483648010\<close> the time is \<open>1125899906847867 / 524288\<close>, which
  strictly exceeds the stored time plus 120. The double sum is rounded up to that very
  time, so the comparison fails and an unchanged non-write sample is suppressed.
\<close>

theorem shouldSendHeartbeat_exact_sum_counterexample:
  "double (2147483528010 / 1000) = 9007198751466455 / 4194304
   \<and> double (2147483648010 / 1000) = 1125899906847867 / 524288
   \<and> (9007198751466455 / 4194304 :: real) + 120 < 1125899906847867 / 524288
   \<and> shouldSendHeartbeat (example_state\<lparr> lastTime := 9007198751466455 / 4194304 \<rparr>)
        ''main.ts'' (1125899906847867 / 524288) False Coding
     = JS_undefined
   \<and> fst (sendHeartbeat (\<lambda>p. True) 2147483648010
            (example_state\<lparr> lastTime := double (2147483528010 / 1000) \<rparr>)
            (example_props (Some ''/usr/share/code/code'') False))
     = Return_throttled"
  by (simp add: double_example_values shouldSendHeartbeat_def sendHeartbeat_def example_state_def
        example_props_def initial_wakatime_def)

text \<open>
  C1, amended. The throttle decision returns \<^verbatim>\<open>true\<close> exactly when the sample is a
  write, or its category differs from the stored one, or its entity is non-empty and
  differs from the stored one, or its time strictly exceeds the double sum of the
  stored emission time and 120, that is the exact sum rounded to the nearest double.
  Where the exact sum is a double, that is the exact sum. A non-write sample with the
  stored category and entity whose time is a double less than 120 seconds after the
  stored emission time is suppressed (the falsy \<^verbatim>\<open>undefined\<close>), and every write
  sample is approved.
\<close>

theorem shouldSendHeartbeat_iff:
  "(shouldSendHeartbeat this ent t isWrite category = JS_true \<longleftrightarrow>
      isWrite \<or> category \<noteq> lastCategory this
      \<or> (ent \<noteq> [] \<and> ent \<noteq> lastEntitiy this)
      \<or> double (lastTime this + 120) < t)
   \<and> (double (lastTime this + 120) = lastTime this + 120 \<longrightarrow>
        (shouldSendHeartbeat this ent t isWrite category = JS_true \<longleftrightarrow>
           isWrite \<or> category \<noteq> lastCategory this
           \<or> (ent \<noteq> [] \<and> ent \<noteq> lastEntitiy this)
           \<or> lastTime this + 120 < t))
   \<and> (\<not> isWrite \<and> category = lastCategory this \<and> ent = lastEntitiy this
        \<and> double t = t \<and> t - lastTime this < 120
      \<longrightarrow> \<not> truthy (shouldSendHeartbeat this ent t isWrite category))
   \<and> (isWrite \<longrightarrow> shouldSendHeartbeat this ent t isWrite category = JS_true)"
proof -
  have suppressed: "\<not> double (lastTime this + 120) < t"
    if "double t = t" and "t - lastTime this < 120"
  proof -
    from that(2) have "t \<le> lastTime this + 120" by simp
    then have "double t \<le> double (lastTime this + 120)" by (rule double_mono)
    with that(1) show ?thesis by simp
  qed
  then show ?thesis by (auto simp: shouldSendHeartbeat_def)
qed

theorem shouldSendHeartbeat_iff_witness:
  "shouldSendHeartbeat (initial_wakatime ''linux-wakatime/1.0'') ''main.ts'' 100 False Coding
     = JS_true
   \<and> shouldSendHeartbeat example_state ''main.ts'' 1700000121 False Coding = JS_true
   \<and> \<not> truthy (shouldSendHeartbeat example_state ''main.ts'' 1700000010 False Coding)
   \<and> shouldSendHeartbeat example_state ''main.ts'' 1700000010 True Coding = JS_true"
proof -
  note rule = shouldSendHeartbeat_iff
  have changed: "shouldSendHeartbeat (initial_wakatime ''linux-wakatime/1.0'') ''main.ts'' 100
      False Coding = JS_true"
    using rule [of "initial_wakatime ''linux-wakatime/1.0''" "''main.ts''" 100 False Coding,
        THEN conjunct1]
    by (simp add: initial_wakatime_def)
  have later: "shouldSendHeartbeat example_state ''main.ts'' 1700000121 False Coding = JS_true"
    using rule [of example_state "''main.ts''" 1700000121 False Coding,
        THEN conjunct2, THEN conjunct1]
    by (simp add: example_state_def initial_wakatime_def double_example_values)
  have within: "\<not> truthy (shouldSendHeartbeat example_state ''main.ts'' 1700000010 False Coding)"
    using rule [of example_state "''main.ts''" 1700000010 False Coding,
        THEN conjunct2, THEN conjunct2, THEN conjunct1]
    by (simp add: example_state_def initial_wakatime_def double_example_values)
  have written: "shouldSendHeartbeat example_state ''main.ts'' 1700000010 True Coding = JS_true"
    using rule [of example_state "''main.ts''" 1700000010 True Coding,
        THEN conjunct2, THEN conjunct2, THEN conjunct2]
    by simp
  show ?thesis by (intro conjI changed later within written)
qed

subsection \<open>Splitting a title\<close>

lemma split0_no_occurrence: "\<not> sublist sep s \<Longrightarrow> split0 sep s = s"
proof (induction s)
  case Nil
  then show ?case by simp
next
  case (Cons c cs)
  have "\<not> prefix sep (c # cs)"
    using Cons.prems prefix_imp_sublist by blast
  moreover have "\<not> sublist sep cs"
    using Cons.prems by (auto simp: sublist_Cons_right)
  ultimately show ?case using Cons by simp
qed

lemma prefix_of_front: "prefix xs (ys @ zs) \<Longrightarrow> length xs \<le> length ys \<Longrightarrow> prefix xs ys"
  by (auto simp: prefix_append)

lemma no_prefix_inside:
  assumes "sep \<noteq> []" and "\<not> sublist sep ((c # cs) @ butlast sep)"
  shows "\<not> prefix sep ((c # cs) @ sep @ post)"
proof
  assume here: "prefix sep ((c # cs) @ sep @ post)"
  have "sep @ post = butlast sep @ (last sep # post)"
    using assms(1) by (metis append.assoc append_Cons append_Nil append_butlast_last_id)
  then have split: "(c # cs) @ sep @ post = ((c # cs) @ butlast sep) @ (last sep # post)"
    by simp
  have "prefix sep (((c # cs) @ butlast sep) @ (last sep # post))"
    using here by (simp only: split)
  moreover have "length sep \<le> length ((c # cs) @ butlast sep)" by simp
  ultimately have "prefix sep ((c # cs) @ butlast sep)"
    by (rule prefix_of_front)
  then show False using assms(2) prefix_imp_sublist by blast
qed

text \<open>
  No occurrence of \<open>sep\<close> starts inside \<open>pre\<close> exactly when \<open>sep\<close> is not a
  contiguous part of \<open>pre\<close> followed by all but the last character of \<open>sep\<close>.
\<close>

lemma split0_first_occurrence:
  "sep \<noteq> [] \<Longrightarrow> \<not> sublist sep (pre @ butlast sep) \<Longrightarrow> split0 sep (pre @ sep @ post) = pre"
proof (induction pre)
  case Nil
  then show ?case by (cases sep) auto
next
  case (Cons c cs)
  have "\<not> prefix sep ((c # cs) @ sep @ post)"
    using no_prefix_inside [OF Cons.prems] .
  moreover have "\<not> sublist sep (cs @ butlast sep)"
    using Cons.prems(2) by (auto simp: sublist_Cons_right)
  ultimately show ?case using Cons by simp
qed

subsection \<open>Entity of a non-browser app\<close>

text \<open>
  C2, as stated, fails. For the ids of the first \<^verbatim>\<open>case\<close> group of
  \<^verbatim>\<open>MonitoredApp.title\<close> other than canva and notes, a non-browser app gets the
  string \<^verbatim>\<open>"<id> should never use window title as entity"\<close> as its entity, not
  \<^verbatim>\<open>null\<close>; and no terminal-class id is in that group, so such an app gets the first
  segment of its title.
\<close>

theorem entity_title_blocked_counterexample:
  "app_id (example_app ''firefox'' False) \<in> set title_blocked_ids
   \<and> \<not> isBrowser (example_app ''firefox'' False)
   \<and> entity example_env (example_window ''Inbox - Mozilla Firefox'' None)
       (Some (example_app ''firefox'' False))
     = Inr (Some ''firefox should never use window title as entity'')
   \<and> entity example_env (example_window ''vim - zsh'' None)
       (Some (example_app ''windows_terminal'' False))
     = Inr (Some ''vim'')"
  by (simp add: entity_def title_def title_default_def title_blocked_ids_def example_app_def
        example_window_def)

text \<open>
  C2, amended. For a non-browser app whose id is in the blocked group, the entity does
  not depend on the window: it is the same for every title. For canva and notes it is
  \<^verbatim>\<open>null\<close>. The terminal-class ids (iterm2, mac_terminal, windows_terminal,
  powershell) are not blocked: the entity of such an app is the first segment of a
  non-empty title, and the process name when the title is empty.
\<close>

theorem entity_title_blocked:
  "\<not> isBrowser a \<longrightarrow>
     (app_id a \<in> set title_blocked_ids \<longrightarrow> entity env w (Some a) = entity env w' (Some a))
     \<and> (app_id a \<in> {''canva'', ''notes''} \<longrightarrow> entity env w (Some a) = Inr None)
     \<and> (app_id a \<in> {''iterm2'', ''mac_terminal'', ''windows_terminal'', ''powershell''} \<longrightarrow>
          (title_of w \<noteq> [] \<longrightarrow> entity env w (Some a) = Inr (Some (split0 '' - '' (title_of w))))
          \<and> (title_of w = [] \<longrightarrow> entity env w (Some a) = Inr (Some (name (info w)))))"
  by (auto simp: entity_def title_def title_default_def title_blocked_ids_def)

theorem entity_title_blocked_witness:
  "entity example_env (example_window ''Poster - Canva'' None) (Some (example_app ''canva'' False))
     = Inr None
   \<and> entity example_env (example_window ''Inbox - Mozilla Firefox'' None)
       (Some (example_app ''firefox'' False))
     = entity example_env (example_window ''Mozilla Firefox'' None)
         (Some (example_app ''firefox'' False))
   \<and> entity example_env (example_window ''vim - zsh'' None)
       (Some (example_app ''iterm2'' False))
     = Inr (Some ''vim'')
   \<and> entity example_env (example_window [] None) (Some (example_app ''powershell'' False))
     = Inr (Some ''app'')"
proof -
  have canva: "entity example_env (example_window ''Poster - Canva'' None)
      (Some (example_app ''canva'' False)) = Inr None"
    using entity_title_blocked [of "example_app ''canva'' False" example_env
        "example_window ''Poster - Canva'' None"]
    by (simp add: example_app_def)
  have firefox: "entity example_env (example_window ''Inbox - Mozilla Firefox'' None)
       (Some (example_app ''firefox'' False))
     = entity example_env (example_window ''Mozilla Firefox'' None)
         (Some (example_app ''firefox'' False))"
    using entity_title_blocked [of "example_app ''firefox'' False" example_env
        "example_window ''Inbox - Mozilla Firefox'' None" "example_window ''Mozilla Firefox'' None"]
    by (simp add: example_app_def title_blocked_ids_def)
  have iterm: "entity example_env (example_window ''vim - zsh'' None)
      (Some (example_app ''iterm2'' False)) = Inr (Some ''vim'')"
    using entity_title_blocked [of "example_app ''iterm2'' False" example_env
        "example_window ''vim - zsh'' None"]
    by (simp add: example_app_def example_window_def)
  have powershell: "entity example_env (example_window [] None)
      (Some (example_app ''powershell'' False)) = Inr (Some ''app'')"
    using entity_title_blocked [of "example_app ''powershell'' False" example_env
        "example_window [] None"]
    by (simp add: example_app_def example_window_def)
  show ?thesis by (intro conjI canva firefox iterm powershell)
qed

subsection \<open>Entity of a browser\<close>

lemma domainFromUrl_port_twice:
  "new_URL env u = Some parsed \<Longrightarrow> port parsed \<noteq> [] \<Longrightarrow>
   domainFromUrl env u
     = Inr (replace_www (hostname parsed @ '':'' @ port parsed) @ '':'' @ port parsed)"
  by (simp add: domainFromUrl_def host_def)

lemma entity_browser_without_url:
  "isBrowser a \<Longrightarrow> url w = None \<or> url w = Some [] \<or> \<not> filterBrowsedSites env (the (url w)) \<Longrightarrow>
   entity env w (Some a) = Inr None"
  by (auto simp: entity_def split: option.splits)

lemma entity_browser_github:
  "entity example_env (example_window ''Pull request'' (Some ''https://github.com/acme/widgets/pull/9''))
     (Some (example_app ''chrome'' True)) = Inr (Some ''github.com'')"
  by (simp add: entity_def example_app_def example_window_def example_env_def example_new_URL_def
        domainFromUrl_def host_def)

text \<open>
  C3 at two inputs. \<^verbatim>\<open>domainFromUrl\<close> reads \<^verbatim>\<open>host\<close>, which already ends in the
  port, and appends the port again; and its pattern \<^verbatim>\<open>/^www./\<close> removes four leading
  characters of \<^verbatim>\<open>www2.example.com\<close>, which has no leading \<^verbatim>\<open>www.\<close>.
\<close>

theorem entity_domain_port_twice:
  "entity example_env (example_window ''Dashboard'' (Some ''http://localhost:3000/dashboard''))
     (Some (example_app ''chrome'' True)) = Inr (Some ''localhost:3000:3000'')
   \<and> entity example_env (example_window ''Example'' (Some ''https://www2.example.com/''))
       (Some (example_app ''chrome'' True)) = Inr (Some ''.example.com'')"
  by (simp add: entity_def example_app_def example_window_def example_env_def example_new_URL_def
        domainFromUrl_def host_def line_terminator_def)

subsection \<open>Placeholder titles\<close>

text \<open>
  C5, as stated, fails: \<^verbatim>\<open>Untitled\<close> is not one of the strings that the figma case
  compares with, so the entity of \<^verbatim>\<open>"Untitled - Figma"\<close> is \<^verbatim>\<open>"Untitled"\<close>.
\<close>

theorem figma_untitled_counterexample:
  "entity example_env (example_window ''Untitled - Figma'' None)
     (Some (example_app ''figma'' False)) = Inr (Some ''Untitled'')"
  by (simp add: entity_def title_def title_blocked_ids_def example_app_def example_window_def)

text \<open>
  C5, amended. For figma and postman, \<^verbatim>\<open>MonitoredApp.title\<close> returns the segment of
  the window title before the first \<^verbatim>\<open>" - "\<close>, unless that segment is empty or is
  (case-sensitively) \<^verbatim>\<open>"Figma"\<close> or \<^verbatim>\<open>"Drafts"\<close> for figma, \<^verbatim>\<open>"Postman"\<close> for
  postman; then it returns \<^verbatim>\<open>null\<close>. For warp it returns \<^verbatim>\<open>null\<close> for an empty
  segment and the segment when that is neither empty nor \<^verbatim>\<open>"Warp"\<close> nor
  \<^verbatim>\<open>"Wrap"\<close>. The segment is the whole title when \<^verbatim>\<open>" - "\<close> does not occur in it,
  and \<open>pre\<close> when the title is \<open>pre\<close>, \<^verbatim>\<open>" - "\<close> and a rest, with no occurrence
  starting inside \<open>pre\<close>. For figma, the entity of \<^verbatim>\<open>"Untitled - Figma"\<close> is
  \<^verbatim>\<open>"Untitled"\<close> and that of \<^verbatim>\<open>"Homepage Design - Figma"\<close> is
  \<^verbatim>\<open>"Homepage Design"\<close>.
\<close>

theorem title_placeholder_rule:
  "(app_id a = ''figma'' \<longrightarrow>
      title w (Some a)
        = (if split0 '' - '' (title_of w) \<in> {[], ''Figma'', ''Drafts''} then None
           else Some (split0 '' - '' (title_of w))))
   \<and> (app_id a = ''postman'' \<longrightarrow>
      title w (Some a)
        = (if split0 '' - '' (title_of w) \<in> {[], ''Postman''} then None
           else Some (split0 '' - '' (title_of w))))
   \<and> (app_id a = ''warp'' \<longrightarrow>
        (split0 '' - '' (title_of w) = [] \<longrightarrow> title w (Some a) = None)
        \<and> (split0 '' - '' (title_of w) \<notin> {[], ''Warp'', ''Wrap''} \<longrightarrow>
             title w (Some a) = Some (split0 '' - '' (title_of w))))
   \<and> (\<not> sublist '' - '' (title_of w) \<longrightarrow> split0 '' - '' (title_of w) = title_of w)
   \<and> (title_of w = pre @ '' - '' @ post \<and> \<not> sublist '' - '' (pre @ '' -'') \<longrightarrow>
        split0 '' - '' (title_of w) = pre)
   \<and> entity example_env (example_window ''Untitled - Figma'' None)
       (Some (example_app ''figma'' False)) = Inr (Some ''Untitled'')
   \<and> entity example_env (example_window ''Homepage Design - Figma'' None)
       (Some (example_app ''figma'' False)) = Inr (Some ''Homepage Design'')"
proof -
  have first: "title_of w = pre @ '' - '' @ post \<and> \<not> sublist '' - '' (pre @ '' -'') \<longrightarrow>
        split0 '' - '' (title_of w) = pre"
    using split0_first_occurrence [of "'' - ''" pre post] by simp
  have none: "\<not> sublist '' - '' (title_of w) \<longrightarrow> split0 '' - '' (title_of w) = title_of w"
    by (simp add: split0_no_occurrence)
  have apps: "(app_id a = ''figma'' \<longrightarrow>
      title w (Some a)
        = (if split0 '' - '' (title_of w) \<in> {[], ''Figma'', ''Drafts''} then None
           else Some (split0 '' - '' (title_of w))))
   \<and> (app_id a = ''postman'' \<longrightarrow>
      title w (Some a)
        = (if split0 '' - '' (title_of w) \<in> {[], ''Postman''} then None
           else Some (split0 '' - '' (title_of w))))
   \<and> (app_id a = ''warp'' \<longrightarrow>
        (split0 '' - '' (title_of w) = [] \<longrightarrow> title w (Some a) = None)
        \<and> (split0 '' - '' (title_of w) \<notin> {[], ''Warp'', ''Wrap''} \<longrightarrow>
             title w (Some a) = Some (split0 '' - '' (title_of w))))"
    by (simp add: title_def title_blocked_ids_def Let_def)
  have examples: "entity example_env (example_window ''Untitled - Figma'' None)
       (Some (example_app ''figma'' False)) = Inr (Some ''Untitled'')
   \<and> entity example_env (example_window ''Homepage Design - Figma'' None)
       (Some (example_app ''figma'' False)) = Inr (Some ''Homepage Design'')"
    by (simp add: entity_def title_def title_blocked_ids_def example_app_def example_window_def)
  show ?thesis by (intro conjI apps [THEN conjunct1] apps [THEN conjunct2, THEN conjunct1]
      apps [THEN conjunct2, THEN conjunct2] none first examples [THEN conjunct1]
      examples [THEN conjunct2])
qed

theorem title_placeholder_rule_witness:
  "title (example_window ''Drafts - Figma'' None) (Some (example_app ''figma'' False)) = None
   \<and> title (example_window ''New Request - Postman'' None) (Some (example_app ''postman'' False))
       = Some ''New Request''
   \<and> title (example_window ''zsh - ~/src'' None) (Some (example_app ''warp'' False)) = Some ''zsh''
   \<and> split0 '' - '' ''Homepage'' = ''Homepage''
   \<and> split0 '' - '' ''a - b - c'' = ''a''"
proof -
  note rule = title_placeholder_rule
  have figma: "title (example_window ''Drafts - Figma'' None) (Some (example_app ''figma'' False)) = None"
    using rule [of "example_app ''figma'' False" "example_window ''Drafts - Figma'' None" "[]" "[]",
        THEN conjunct1]
    by (simp add: example_app_def example_window_def)
  have postman: "title (example_window ''New Request - Postman'' None)
      (Some (example_app ''postman'' False)) = Some ''New Request''"
    using rule [of "example_app ''postman'' False" "example_window ''New Request - Postman'' None"
        "[]" "[]", THEN conjunct2, THEN conjunct1]
    by (simp add: example_app_def example_window_def)
  have warp: "title (example_window ''zsh - ~/src'' None) (Some (example_app ''warp'' False))
      = Some ''zsh''"
    using rule [of "example_app ''warp'' False" "example_window ''zsh - ~/src'' None" "[]" "[]",
        THEN conjunct2, THEN conjunct2, THEN conjunct1]
    by (simp add: example_app_def example_window_def)
  have whole: "split0 '' - '' ''Homepage'' = ''Homepage''"
    using rule [of "example_app ''figma'' False" "example_window ''Homepage'' None" "[]" "[]",
        THEN conjunct2, THEN conjunct2, THEN conjunct2, THEN conjunct1]
    by (simp add: example_window_def)
  have first: "split0 '' - '' ''a - b - c'' = ''a''"
    using rule [of "example_app ''figma'' False" "example_window ''a - b - c'' None" "''a''" "''b - c''",
        THEN conjunct2, THEN conjunct2, THEN conjunct2, THEN conjunct2, THEN conjunct1]
    by (simp add: example_window_def)
  show ?thesis by (intro conjI figma postman warp whole first)
qed

subsection \<open>Project\<close>

lemma first_match_find:
  "first_match ps u =
     (case List.find (\<lambda>p. rx_search (expression p) u \<noteq> None) ps of
        None \<Rightarrow> None
      | Some p \<Rightarrow> Option.bind (rx_search (expression p) u) (capture (group_no p)))"
  by (induction ps) (auto split: option.splits)

lemma first_match_empty: "first_match patterns [] = None"
  by (simp add: patterns_def owner_repo_def provider_repo_def segment_def tail_items_def)

lemma project_loop:
  "project w = (case url w of None \<Rightarrow> None | Some u \<Rightarrow> first_match patterns u)"
  by (simp add: project_def first_match_empty split: option.splits)

text \<open>
  What an owner/repo pattern does on a URL of its shape: a greedy \<^verbatim>\<open>[^/]+\<close> takes a
  whole path segment, and the tail \<^verbatim>\<open>\/?.*$\<close> takes any rest without a line
  terminator.
\<close>

lemma star_takes_all:
  "\<forall>c \<in> set seg. cmatch cls c \<Longrightarrow> rx_here (Star cls # r) rest st = Some m \<Longrightarrow>
   rx_here (Star cls # r) (seg @ rest) st = Some m"
  by (induction seg) simp_all

lemma plus_takes_all:
  "seg \<noteq> [] \<Longrightarrow> \<forall>c \<in> set seg. cmatch cls c \<Longrightarrow> rx_here (Star cls # r) rest st = Some m \<Longrightarrow>
   rx_here (Plus cls # r) (seg @ rest) st = Some m"
  by (cases seg) (simp_all add: star_takes_all)

lemma star_stops:
  "rest = [] \<or> \<not> cmatch cls (hd rest) \<Longrightarrow> rx_here (Star cls # r) rest st = rx_here r rest st"
  by (cases rest) auto

lemma tail_items_match:
  assumes "\<forall>c \<in> set rest. \<not> line_terminator c"
  shows "rx_here tail_items rest st = Some st"
proof -
  have all: "rx_here [Star Dot, EndInput] t st = Some st" if "\<forall>c \<in> set t. \<not> line_terminator c" for t
    using star_takes_all [of t Dot "[EndInput]" "[]" st st] that by simp
  show ?thesis
  proof (cases rest)
    case Nil
    then show ?thesis by (simp add: tail_items_def)
  next
    case (Cons x xs)
    with assms all [of xs] all [of "x # xs"] show ?thesis
      by (auto simp: tail_items_def simp del: rx_here.simps(6))
  qed
qed

lemma owner_repo_here:
  assumes "owner \<noteq> []" "CHR ''/'' \<notin> set owner" "repo \<noteq> []" "CHR ''/'' \<notin> set repo"
    and "rest = [] \<or> hd rest = CHR ''/''" and "\<forall>c \<in> set rest. \<not> line_terminator c"
  shows "rx_here (owner_repo h) (h @ owner @ ''/'' @ repo @ rest) ([], [])
           = Some ([(1, repo @ rest)], [(1, repo)])"
proof -
  let ?st = "([(1, repo @ rest)], [(1, repo)])"
  have close: "rx_here (GClose 1 # tail_items) rest ([(1, repo @ rest)], []) = Some ?st"
    using tail_items_match [OF assms(6)] by simp
  have star: "rx_here (Star (Not CHR ''/'') # GClose 1 # tail_items) rest ([(1, repo @ rest)], [])
      = Some ?st"
    using star_stops [of rest "Not CHR ''/''"] assms(5) close by auto
  have repo: "rx_here (segment # GClose 1 # tail_items) (repo @ rest) ([(1, repo @ rest)], []) = Some ?st"
    unfolding segment_def using assms(3,4) star by (intro plus_takes_all) auto
  have slash: "rx_here (Star (Not CHR ''/'') # Lit ''/'' # GOpen 1 # segment # GClose 1 # tail_items)
          (''/'' @ repo @ rest) ([], []) = Some ?st"
    using repo by simp
  have "rx_here (segment # Lit ''/'' # GOpen 1 # segment # GClose 1 # tail_items)
          (owner @ ''/'' @ repo @ rest) ([], []) = Some ?st"
    unfolding segment_def using assms(1,2) slash [unfolded segment_def]
    by (intro plus_takes_all) auto
  then show ?thesis by (simp add: owner_repo_def)
qed

lemma search_first_occurrence:
  "h \<noteq> [] \<Longrightarrow> \<not> sublist h (pre @ butlast h) \<Longrightarrow> rx_here (Lit h # r) (h @ t) ([], []) = Some m \<Longrightarrow>
   rx_search (Lit h # r) (pre @ h @ t) = Some m"
proof (induction pre)
  case Nil
  then show ?case by (cases "h @ t") auto
next
  case (Cons c cs)
  have "\<not> prefix h ((c # cs) @ h @ t)"
    using no_prefix_inside [OF Cons.prems(1,2)] .
  moreover have "\<not> sublist h (cs @ butlast h)"
    using Cons.prems(2) by (auto simp: sublist_Cons_right)
  ultimately show ?case using Cons by simp
qed

lemma search_no_occurrence:
  "h \<noteq> [] \<Longrightarrow> \<not> sublist h u \<Longrightarrow> rx_search (Lit h # r) u = None"
proof (induction u)
  case Nil
  then show ?case by (cases h) auto
next
  case (Cons x xs)
  have "\<not> prefix h (x # xs)"
    using Cons.prems(2) prefix_imp_sublist by blast
  moreover have "\<not> sublist h xs"
    using Cons.prems(2) by (auto simp: sublist_Cons_right)
  ultimately show ?case using Cons by simp
qed

lemma project_owner_repo:
  assumes "owner \<noteq> []" "CHR ''/'' \<notin> set owner" "repo \<noteq> []" "CHR ''/'' \<notin> set repo"
    and "rest = [] \<or> hd rest = CHR ''/''" and "\<forall>c \<in> set rest. \<not> line_terminator c"
    and "url w = Some (pre @ h @ owner @ ''/'' @ repo @ rest)"
    and "\<not> sublist h (pre @ butlast h)"
    and "h = ''github.com/''
         \<or> h = ''gitlab.com/'' \<and> \<not> sublist ''github.com/'' (pre @ h @ owner @ ''/'' @ repo @ rest)
         \<or> h = ''bitbucket.org/'' \<and> \<not> sublist ''github.com/'' (pre @ h @ owner @ ''/'' @ repo @ rest)
             \<and> \<not> sublist ''gitlab.com/'' (pre @ h @ owner @ ''/'' @ repo @ rest)"
  shows "project w = Some repo"
proof -
  let ?u = "pre @ h @ owner @ ''/'' @ repo @ rest"
  have "h \<noteq> []" using assms(9) by auto
  then have found: "rx_search (owner_repo h) ?u = Some ([(1, repo @ rest)], [(1, repo)])"
    using search_first_occurrence [of h pre _ "owner @ ''/'' @ repo @ rest"]
      owner_repo_here [OF assms(1-6), of h] assms(8)
    by (simp add: owner_repo_def)
  have github: "rx_search (owner_repo ''github.com/'') ?u = None" if "\<not> sublist ''github.com/'' ?u"
    using search_no_occurrence [OF _ that] by (simp add: owner_repo_def)
  have gitlab: "rx_search (owner_repo ''gitlab.com/'') ?u = None" if "\<not> sublist ''gitlab.com/'' ?u"
    using search_no_occurrence [OF _ that] by (simp add: owner_repo_def)
  have "first_match patterns ?u = Some repo"
    using assms(9) found github gitlab by (auto simp: patterns_def capture_def)
  with assms(7) show ?thesis by (simp add: project_def)
qed

lemmas project_eval =
  project_def example_window_def patterns_def owner_repo_def provider_repo_def
  segment_def tail_items_def capture_def line_terminator_def

text \<open>
  C7. \<^verbatim>\<open>MonitoredApp.project\<close> is \<^verbatim>\<open>null\<close> without a URL; otherwise it is decided
  by the first pattern of the list (github.com, gitlab.com, bitbucket.org, CircleCI, the
  two Travis CI hosts) that matches somewhere in the URL, and is the text of that
  pattern's repository group; it is \<^verbatim>\<open>null\<close> when no pattern matches. On a URL of
  the shape \<^verbatim>\<open>...github.com/owner/repo\<close>, alone or followed by \<^verbatim>\<open>/\<close> and more, with
  no earlier \<^verbatim>\<open>github.com/\<close> in it, the project is \<^verbatim>\<open>repo\<close>. For
  \<^verbatim>\<open>https://github.com/acme/widgets/pull/9\<close> it is \<^verbatim>\<open>widgets\<close>; one URL per further
  pattern, and one that no pattern matches, follow.
\<close>

theorem project_first_match:
  "project w =
     (case url w of
        None \<Rightarrow> None
      | Some u \<Rightarrow>
          (case List.find (\<lambda>p. rx_search (expression p) u \<noteq> None) patterns of
             None \<Rightarrow> None
           | Some p \<Rightarrow> Option.bind (rx_search (expression p) u) (capture (group_no p))))
   \<and> (owner \<noteq> [] \<and> CHR ''/'' \<notin> set owner \<and> repo \<noteq> [] \<and> CHR ''/'' \<notin> set repo
        \<and> (rest = [] \<or> hd rest = CHR ''/'') \<and> (\<forall>c \<in> set rest. \<not> line_terminator c)
        \<and> \<not> sublist ''github.com/'' (pre @ ''github.com'')
        \<and> url w = Some (pre @ ''github.com/'' @ owner @ ''/'' @ repo @ rest)
      \<longrightarrow> project w = Some repo)
   \<and> project (example_window t (Some ''https://github.com/acme/widgets/pull/9'')) = Some ''widgets''
   \<and> project (example_window t (Some ''https://gitlab.com/acme/widgets'')) = Some ''widgets''
   \<and> project (example_window t (Some ''https://bitbucket.org/acme/widgets/src/main/''))
       = Some ''widgets''
   \<and> project (example_window t (Some ''https://app.circleci.com/pipelines/github/acme/widgets''))
       = Some ''widgets''
   \<and> project (example_window t (Some ''https://app.travis-ci.com/github/acme/widgets/builds/1''))
       = Some ''widgets''
   \<and> project (example_window t (Some ''https://app.travis-ci.org/gitlab/acme/widgets''))
       = Some ''widgets''
   \<and> project (example_window t (Some ''https://example.org/acme/widgets'')) = None"
proof -
  have general: "project w =
     (case url w of
        None \<Rightarrow> None
      | Some u \<Rightarrow>
          (case List.find (\<lambda>p. rx_search (expression p) u \<noteq> None) patterns of
             None \<Rightarrow> None
           | Some p \<Rightarrow> Option.bind (rx_search (expression p) u) (capture (group_no p))))"
    unfolding project_loop first_match_find [of patterns] ..
  have shape: "owner \<noteq> [] \<and> CHR ''/'' \<notin> set owner \<and> repo \<noteq> [] \<and> CHR ''/'' \<notin> set repo
        \<and> (rest = [] \<or> hd rest = CHR ''/'') \<and> (\<forall>c \<in> set rest. \<not> line_terminator c)
        \<and> \<not> sublist ''github.com/'' (pre @ ''github.com'')
        \<and> url w = Some (pre @ ''github.com/'' @ owner @ ''/'' @ repo @ rest)
      \<longrightarrow> project w = Some repo"
    using project_owner_repo [of owner repo rest w pre "''github.com/''"] by simp
  have e1: "project (example_window t (Some ''https://github.com/acme/widgets/pull/9'')) = Some ''widgets''"
    by (simp add: project_eval)
  have e2: "project (example_window t (Some ''https://gitlab.com/acme/widgets'')) = Some ''widgets''"
    by (simp add: project_eval)
  have e3: "project (example_window t (Some ''https://bitbucket.org/acme/widgets/src/main/''))
       = Some ''widgets''"
    by (simp add: project_eval)
  have e4: "project (example_window t (Some ''https://app.circleci.com/pipelines/github/acme/widgets''))
       = Some ''widgets''"
    by (simp add: project_eval)
  have e5: "project (example_window t (Some ''https://app.travis-ci.com/github/acme/widgets/builds/1''))
       = Some ''widgets''"
    by (simp add: project_eval)
  have e6: "project (example_window t (Some ''https://app.travis-ci.org/gitlab/acme/widgets''))
       = Some ''widgets''"
    by (simp add: project_eval)
  have e7: "project (example_window t (Some ''https://example.org/acme/widgets'')) = None"
    by (simp add: project_eval)
  show ?thesis by (intro conjI general shape e1 e2 e3 e4 e5 e6 e7)
qed

theorem project_first_match_witness:
  "project (example_window ''Pull request'' (Some ''https://github.com/acme/widgets/pull/9''))
     = Some ''widgets''
   \<and> project (example_window ''Pull request'' (Some ''https://example.org/acme/widgets'')) = None"
proof -
  note rule =
    project_first_match
      [where w = "example_window ''Pull request'' (Some ''https://github.com/acme/widgets/pull/9'')"
         and t = "''Pull request''" and pre = "''https://''" and owner = "''acme''"
         and repo = "''widgets''" and rest = "''/pull/9''"]
  have "project (example_window ''Pull request'' (Some ''https://github.com/acme/widgets/pull/9''))
     = Some ''widgets''"
    using rule [THEN conjunct2, THEN conjunct1]
    by (simp add: example_window_def line_terminator_def sublist_Cons_right)
  then show ?thesis
    by (intro conjI rule [THEN conjunct2, THEN conjunct2, THEN conjunct2, THEN conjunct2,
          THEN conjunct2, THEN conjunct2, THEN conjunct2, THEN conjunct2])
qed

subsection \<open>The summary of today\<close>

lemma set_status_lastCodeTimeFetched [simp]:
  "lastCodeTimeFetched (set_status a b this) = lastCodeTimeFetched this"
  by (simp add: set_status_def)

lemma fetchToday_resume_lastCodeTimeFetched [simp]:
  "lastCodeTimeFetched (fetchToday_resume r this) = lastCodeTimeFetched this"
  by (cases r) simp_all







subsection \<open>Update coordinator\<close>

lemma checkForUpdates_keeps_state: "snd (checkForUpdates autoUpdateEnabled isDev now this) = this"
  by (simp add: checkForUpdates_def)

lemma checkForUpdates_checks:
  "autoUpdateEnabled \<Longrightarrow> \<not> isDev \<Longrightarrow> lastCheckedForUpdates this + 600000 \<le> now \<Longrightarrow>
   checkForUpdates autoUpdateEnabled isDev now this = ([CheckForUpdatesAndNotify], this)"
  by (simp add: checkForUpdates_def)

text \<open>
  C4 at two calls one second apart, auto-update enabled, not a development build, from
  the initial state: each call asks the feed client to check. \<^verbatim>\<open>lastCheckedForUpdates\<close>
  stays at its initial \<open>0\<close>, so the test against 600 seconds never holds up a call.
\<close>

theorem checkForUpdates_twice:
  "fst (checkForUpdates True False 1700000000000 (initial_wakatime version))
   @ fst (checkForUpdates True False 1700000001000
            (snd (checkForUpdates True False 1700000000000 (initial_wakatime version))))
   = [CheckForUpdatesAndNotify, CheckForUpdatesAndNotify]"
  by (simp add: checkForUpdates_def initial_wakatime_def)

theorem checkForUpdates_twice_witness:
  "fst (checkForUpdates True False 1700000000000 (initial_wakatime ''linux-wakatime/1.0''))
   @ fst (checkForUpdates True False 1700000001000
            (snd (checkForUpdates True False 1700000000000
                    (initial_wakatime ''linux-wakatime/1.0''))))
   = [CheckForUpdatesAndNotify, CheckForUpdatesAndNotify]"
  by (rule checkForUpdates_twice)

text \<open>
  C6, as stated, fails: from the initial state a second \<^verbatim>\<open>update-available\<close> event for
  \<^verbatim>\<open>1.2.0\<close>, one millisecond after the first and with no \<^verbatim>\<open>update-downloaded\<close>
  event between them, starts a download again.
\<close>

theorem update_available_twice_counterexample:
  "fst (on_update_available 1700000000001 ''1.2.0''
         (snd (on_update_available 1700000000000 ''1.2.0'' (initial_wakatime ''linux-wakatime/1.0''))))
   = [DownloadUpdate]"
  by (simp add: on_update_available_def canPromptToUpdate_def initial_wakatime_def)

text \<open>
  C6, amended. The \<^verbatim>\<open>update-available\<close> handler changes no field: it starts a
  download unless the version is the stored one and at most 604800 seconds have
  passed since the stored time. So from the initial state two \<^verbatim>\<open>update-available\<close>
  events for the same version both start a download. Only \<^verbatim>\<open>update-downloaded\<close>
  stores a version and a time: after it has done so for a version, an
  \<^verbatim>\<open>update-available\<close> event for that version within 604800 seconds of the stored time
  is suppressed, and one for another version is not.
\<close>

theorem update_available_suppression:
  "on_update_available now v this
     = (if now \<le> lastPromptedToUpdateAt this + 604800000 \<and> lastPromptedToUpdateVersion this = v
        then [] else [DownloadUpdate], this)
   \<and> (v \<noteq> [] \<longrightarrow>
        fst (on_update_available t1 v (initial_wakatime version)) = [DownloadUpdate]
        \<and> fst (on_update_available t2 v (snd (on_update_available t1 v (initial_wakatime version))))
            = [DownloadUpdate]
        \<and> fst (on_update_downloaded t1 t1' v (initial_wakatime version)) = [QuitAndInstall]
        \<and> (t2 \<le> t1' + 604800000 \<longrightarrow>
              fst (on_update_available t2 v
                     (snd (on_update_downloaded t1 t1' v (initial_wakatime version)))) = [])
        \<and> (v' \<noteq> v \<longrightarrow>
              fst (on_update_available t2 v'
                     (snd (on_update_downloaded t1 t1' v (initial_wakatime version))))
                = [DownloadUpdate]))"
  by (auto simp: on_update_available_def on_update_downloaded_def canPromptToUpdate_def
        initial_wakatime_def)

theorem update_available_suppression_witness:
  "fst (on_update_available 1700000000001 ''1.2.0''
         (snd (on_update_available 1700000000000 ''1.2.0'' (initial_wakatime ''linux-wakatime/1.0''))))
     = [DownloadUpdate]
   \<and> fst (on_update_available 1700000000001 ''1.2.0''
         (snd (on_update_downloaded 1700000000000 1700000000000 ''1.2.0''
                (initial_wakatime ''linux-wakatime/1.0'')))) = []
   \<and> fst (on_update_available 1700000000001 ''1.3.0''
         (snd (on_update_downloaded 1700000000000 1700000000000 ''1.2.0''
                (initial_wakatime ''linux-wakatime/1.0'')))) = [DownloadUpdate]"
  using update_available_suppression [of 0 "''1.2.0''" "initial_wakatime ''linux-wakatime/1.0''"
      1700000000000 "''linux-wakatime/1.0''" 1700000000001 1700000000000 "''1.3.0''"]
  by simp

subsection \<open>The gate before the dispatch\<close>

text \<open>
  C8, as stated, fails: the throttle is asked first. A call whose window has no path,
  ten seconds after a heartbeat for the same entity and category, returns at the
  throttle's \<^verbatim>\<open>return\<close>, not at the gate; the same call with the write flag set
  passes the throttle and returns at the gate.
\<close>

theorem sendHeartbeat_gate_counterexample:
  "path (info (props_windowInfo (example_props None False))) = None
   \<and> fst (sendHeartbeat (\<lambda>p. True) 1700000010000 example_state (example_props None False))
       = Return_throttled
   \<and> fst (sendHeartbeat (\<lambda>p. True) 1700000010000 example_state (example_props None True))
       = Return_not_monitored"
  by (simp add: sendHeartbeat_def shouldSendHeartbeat_def example_props_def example_state_def
        initial_wakatime_def truthy_string_def or_else_def double_example_values)

text \<open>
  C8, amended. When the window's path is missing or not monitored, or neither the
  window nor the app has a name, \<^verbatim>\<open>sendHeartbeat\<close> starts no CLI and leaves every
  field as it was, the throttle's three included. The throttle decision is taken
  first: such a call returns at the throttle when the throttle suppresses the sample,
  and at the gate otherwise.
\<close>

theorem sendHeartbeat_gate_frame:
  assumes "\<not> truthy_string (path (info (props_windowInfo props)))
           \<or> \<not> isMonitored (the (path (info (props_windowInfo props))))
           \<or> \<not> truthy_string (or_else (Some (name (info (props_windowInfo props))))
                                 (map_option app_name (props_appData props)))"
  shows "snd (sendHeartbeat isMonitored now this props) = this
   \<and> (\<forall>args. fst (sendHeartbeat isMonitored now this props) \<noteq> Exec_heartbeat args)
   \<and> (fst (sendHeartbeat isMonitored now this props) = Return_throttled
        \<longleftrightarrow> \<not> truthy (shouldSendHeartbeat this (props_entity props) (double (real_of_int now / 1000))
                          (props_isWrite props)
                          (case props_category props of None \<Rightarrow> Coding | Some c \<Rightarrow> c)))
   \<and> (truthy (shouldSendHeartbeat this (props_entity props) (double (real_of_int now / 1000))
                 (props_isWrite props)
                 (case props_category props of None \<Rightarrow> Coding | Some c \<Rightarrow> c))
        \<longrightarrow> fst (sendHeartbeat isMonitored now this props)
              \<in> {Return_not_monitored, Return_no_app_name})"
  using assms by (auto simp: sendHeartbeat_def Let_def)

theorem sendHeartbeat_gate_frame_witness:
  "snd (sendHeartbeat (\<lambda>p. True) 1700000010000 example_state (example_props None True))
     = example_state
   \<and> fst (sendHeartbeat (\<lambda>p. True) 1700000010000 example_state (example_props None True))
     = Return_not_monitored
   \<and> snd (sendHeartbeat (\<lambda>p. False) 1700000010000 example_state
            (example_props (Some ''/usr/share/code/code'') True))
     = example_state"
  using sendHeartbeat_gate_frame [of "example_props None True" "\<lambda>p. True" 1700000010000 example_state]
    sendHeartbeat_gate_frame [of "example_props (Some ''/usr/share/code/code'') True" "\<lambda>p. False"
      1700000010000 example_state]
  by (simp add: example_props_def example_state_def initial_wakatime_def truthy_string_def
        or_else_def shouldSendHeartbeat_def sendHeartbeat_def double_example_values)

lemma sendHeartbeat_dispatch:
  "truthy (shouldSendHeartbeat this (props_entity props) (double (real_of_int now / 1000))
            (props_isWrite props) (case props_category props of None \<Rightarrow> Coding | Some c \<Rightarrow> c)) \<Longrightarrow>
   path (info (props_windowInfo props)) = Some p \<Longrightarrow> p \<noteq> [] \<Longrightarrow> isMonitored p \<Longrightarrow>
   name (info (props_windowInfo props)) \<noteq> [] \<Longrightarrow>
   \<exists>args. sendHeartbeat isMonitored now this props
     = (Exec_heartbeat args,
        this\<lparr> lastEntitiy := props_entity props,
              lastCategory := (case props_category props of None \<Rightarrow> Coding | Some c \<Rightarrow> c),
              lastTime := double (real_of_int now / 1000) \<rparr>)"
  by (simp add: sendHeartbeat_def Let_def truthy_string_def or_else_def)

subsection \<open>The name of a window of the polling observer\<close>

lemma build_window_name:
  "build_window env windowId out pidFromWmctrl fallbackTitle = Inr w \<Longrightarrow>
   name (info w) =
     (if truthy_string (nullish (nullish (last_class (wm_class out)) (gtk_application_id out))
                          (path (info w)))
      then path_name env (the (path (info w)))
      else title_of w)"
  by (auto simp: build_window_def Let_def path_parse_name_def split: sum.splits option.splits if_splits)

text \<open>
  C10 at a window with \<^verbatim>\<open>WM_CLASS = "code", "Code"\<close>, no GTK id and process 4242.
  When the path of the process does not resolve, \<^verbatim>\<open>path.parse(null)\<close> throws, the
  \<^verbatim>\<open>catch\<close> block finds no pid from \<^verbatim>\<open>wmctrl\<close>, and no window is reported. When it
  resolves, the reported name is the name of the executable, whatever \<^verbatim>\<open>WM_CLASS\<close> is.
\<close>

theorem buildWindowFromId_name:
  "buildWindowFromId \<lparr> resolveProcessPath = (\<lambda>pid. None), path_name = pn \<rparr> ''0x3a00007''
     (Some \<lparr> net_wm_pid = Some 4242, net_wm_name = Some ''main.ts - Code'',
             wm_class = Some [''code'', ''Code''], gtk_application_id = None \<rparr>) None None
     = None
   \<and> map_option (\<lambda>w. name (info w))
       (buildWindowFromId
          \<lparr> resolveProcessPath = (\<lambda>pid. Some ''/usr/share/code/code''), path_name = pn \<rparr>
          ''0x3a00007''
          (Some \<lparr> net_wm_pid = Some 4242, net_wm_name = Some ''main.ts - Code'',
                  wm_class = Some [''code'', ''Code''], gtk_application_id = None \<rparr>) None None)
     = Some (pn ''/usr/share/code/code'')"
  by (simp add: buildWindowFromId_def build_window_def build_window_catch_def Let_def
        path_parse_name_def last_class_def first_class_def nullish_def truthy_string_def
        truthy_number_def or_else_def)

end
